theory Spec2Isabelle
  imports Complex_Main
begin

section \<open>Python values, strings and errors\<close>

text \<open>
  The program is one Python module, \<^verbatim>\<open>scrape_the_web_agentically.py\<close>. Its nodes
  are functions over a dictionary state; the graph runtime (LangGraph), the extraction
  routine (ScrapeGraphAI) and Python's built-in \<^verbatim>\<open>str\<close>/\<^verbatim>\<open>repr\<close> are libraries. The
  nodes, the reducers and the edges are embedded from the module; what a library computes
  is either a parameter of the embedding (the extractor, the \<^verbatim>\<open>repr\<close> of an arbitrary
  value) or written down from its documented behaviour and marked as such. Calls to
  \<^verbatim>\<open>logging\<close> have no effect on any value a node returns and are left out.

  A Python string is a \<^typ>\<open>string\<close>; characters stand for the code points 0..255.
  A value of type \<^verbatim>\<open>Any\<close> that reaches the program is either a string or an opaque
  object of type \<^typ>\<open>'v\<close>.
\<close>

datatype py_error = TypeError | KeyError

datatype 'v py_value = PyStr string | PyOther 'v

text \<open>A \<^verbatim>\<open>Dict[str, Any]\<close>, in insertion order.\<close>

type_synonym 'v py_dict = "(string \<times> 'v py_value) list"

text \<open>
  \<^verbatim>\<open>str.lower()\<close> on the code points 0..255: the upper-case letters are A..Z
  (65..90) and the Latin-1 letters 192..214 and 216..222; each maps to the code point 32
  above it.
\<close>

definition lower_char :: "char \<Rightarrow> char" where
  "lower_char c =
     (let n = of_char c :: nat
      in if (65 \<le> n \<and> n \<le> 90) \<or> (192 \<le> n \<and> n \<le> 214) \<or> (216 \<le> n \<and> n \<le> 222)
         then char_of (n + 32) else c)"

definition lower :: "string \<Rightarrow> string" where
  "lower s = map lower_char s"

text \<open>\<^verbatim>\<open>needle in haystack\<close> on strings: \<open>needle\<close> occurs as a contiguous run.\<close>

fun starts_with :: "string \<Rightarrow> string \<Rightarrow> bool" where
  "starts_with [] _ = True"
| "starts_with (p # ps) [] = False"
| "starts_with (p # ps) (c # cs) = (p = c \<and> starts_with ps cs)"

fun str_in :: "string \<Rightarrow> string \<Rightarrow> bool" where
  "str_in needle [] = (needle = [])"
| "str_in needle (c # cs) = (starts_with needle (c # cs) \<or> str_in needle cs)"

text \<open>\<^verbatim>\<open>sep.join(parts)\<close>.\<close>

fun join :: "string \<Rightarrow> string list \<Rightarrow> string" where
  "join sep [] = []"
| "join sep [x] = x"
| "join sep (x # y # ys) = x @ sep @ join sep (y # ys)"

text \<open>
  \<^verbatim>\<open>str(d.values())\<close> of a dictionary \<open>d\<close>: the text \<^verbatim>\<open>dict_values([\<close>, the \<^verbatim>\<open>repr\<close> of
  each value in order separated by a comma and a space, and \<^verbatim>\<open>])\<close>. The \<^verbatim>\<open>repr\<close> of a
  value is the parameter \<open>py_repr\<close>.
\<close>

definition str_dict_values :: "('v py_value \<Rightarrow> string) \<Rightarrow> 'v py_dict \<Rightarrow> string" where
  "str_dict_values py_repr d = ''dict_values(['' @ join '', '' (map (py_repr \<circ> snd) d) @ ''])''"

text \<open>
  \<^verbatim>\<open>str(x)\<close> of a value: a string is its own \<^verbatim>\<open>str\<close>; for an opaque object it is the
  parameter \<open>str_other\<close>.
\<close>

fun py_str :: "('v \<Rightarrow> string) \<Rightarrow> 'v py_value \<Rightarrow> string" where
  "py_str str_other (PyStr s) = s"
| "py_str str_other (PyOther v) = str_other v"

section \<open>Settings and state schemas\<close>

record Settings =
  openai_api_key :: string

text \<open>The run configuration \<^verbatim>\<open>{"configurable": {"settings": settings}}\<close>.\<close>

record RunConfig =
  settings :: Settings

text \<open>\<^verbatim>\<open>first_non_null\<close>: \<^verbatim>\<open>a if a is not None else b\<close>.\<close>

definition first_non_null :: "'a option \<Rightarrow> 'a option \<Rightarrow> 'a option" where
  "first_non_null a b = (case a of Some x \<Rightarrow> Some x | None \<Rightarrow> b)"

text \<open>
  \<^verbatim>\<open>operator.or_\<close> (here \<open>py_or\<close>) at the type \<^verbatim>\<open>Optional[bool]\<close>: \<^verbatim>\<open>a | b\<close> of two
  booleans is their disjunction; with \<^verbatim>\<open>None\<close> on either side Python raises \<^verbatim>\<open>TypeError\<close>.
\<close>

fun py_or :: "bool option \<Rightarrow> bool option \<Rightarrow> py_error + bool option" where
  "py_or (Some a) (Some b) = Inr (Some (a \<or> b))"
| "py_or _ _ = Inl TypeError"

text \<open>
  \<^verbatim>\<open>InputState\<close>: the raw input, whose keys may be absent. \<^verbatim>\<open>urls\<close> is a string or a
  list of strings.
\<close>

datatype urls_input = UrlStr string | UrlList "string list"

record InputState =
  urls :: "urls_input option"
  input_keyword :: "string option"

text \<open>
  \<^verbatim>\<open>OverallState\<close>: every key of the schema is present, so \<^verbatim>\<open>state.get(k, default)\<close>
  and \<^verbatim>\<open>state[k]\<close> both read the field; \<^verbatim>\<open>Optional\<close> fields are options.
\<close>

record 'v OverallState =
  initial_urls :: "string list"
  current_url_index :: int
  total_urls :: int
  urls_to_scrape :: "string list"
  extracted_info :: "'v py_dict option"
  extracted_from_url :: "string option"
  is_information_found :: "bool option"
  keyword :: string

text \<open>
  The dictionary a node returns (\<^verbatim>\<open>Dict[str, Any]\<close>): a key of the state schema is
  present (\<open>Some\<close>) or absent (\<open>None\<close>).
\<close>

record 'v StateUpdate =
  upd_initial_urls :: "string list option"
  upd_current_url_index :: "int option"
  upd_total_urls :: "int option"
  upd_urls_to_scrape :: "string list option"
  upd_extracted_info :: "'v py_dict option option"
  upd_extracted_from_url :: "string option option"
  upd_is_information_found :: "bool option option"
  upd_keyword :: "string option"

definition no_update :: "'v StateUpdate" where
  "no_update =
     \<lparr> upd_initial_urls = None, upd_current_url_index = None, upd_total_urls = None,
       upd_urls_to_scrape = None, upd_extracted_info = None, upd_extracted_from_url = None,
       upd_is_information_found = None, upd_keyword = None \<rparr>"

text \<open>A node that returns the whole state writes every key.\<close>

definition whole_state :: "'v OverallState \<Rightarrow> 'v StateUpdate" where
  "whole_state s =
     \<lparr> upd_initial_urls = Some (initial_urls s),
       upd_current_url_index = Some (current_url_index s),
       upd_total_urls = Some (total_urls s),
       upd_urls_to_scrape = Some (urls_to_scrape s),
       upd_extracted_info = Some (extracted_info s),
       upd_extracted_from_url = Some (extracted_from_url s),
       upd_is_information_found = Some (is_information_found s),
       upd_keyword = Some (keyword s) \<rparr>"

text \<open>Truthiness of an \<^verbatim>\<open>Optional[bool]\<close>: \<^verbatim>\<open>None\<close> and \<^verbatim>\<open>False\<close> are falsy.\<close>

fun truthy :: "bool option \<Rightarrow> bool" where
  "truthy (Some b) = b"
| "truthy None = False"

section \<open>Nodes\<close>

subsection \<open>initialize_state\<close>

fun urls_truthy :: "urls_input \<Rightarrow> bool" where
  "urls_truthy (UrlStr s) = (s \<noteq> [])"
| "urls_truthy (UrlList l) = (l \<noteq> [])"

text \<open>The second parameter \<^verbatim>\<open>config\<close> of the source function is never read.\<close>

definition initialize_state :: "InputState \<Rightarrow> 'v OverallState" where
  "initialize_state inp =
     (let urls0 = (case urls inp of None \<Rightarrow> UrlList [] | Some u \<Rightarrow> u);
          keyword0 = (case input_keyword inp of None \<Rightarrow> [] | Some k \<Rightarrow> k);
          urls1 = (if \<not> urls_truthy urls0 then UrlList [''https://python.langchain.com'']
                   else urls0);
          keyword1 = (if keyword0 = [] then ''How to track token usage for LLMs''
                      else keyword0);
          initial = (case urls1 of UrlStr s \<Rightarrow> [s] | UrlList l \<Rightarrow> l)
      in \<lparr> initial_urls = initial,
           current_url_index = 0,
           total_urls = int (length initial),
           urls_to_scrape = initial,
           extracted_info = None,
           extracted_from_url = None,
           is_information_found = Some False,
           keyword = keyword1 \<rparr>)"

subsection \<open>scrape_manager\<close>

text \<open>
  The node computes the remaining count, the processed count and a progress percentage
  for its log line, and returns the state object it was given. The percentage is the
  guarded quotient of the source (\<^verbatim>\<open>if total_urls > 0 else 0\<close>).
\<close>

definition progress_report :: "'v OverallState \<Rightarrow> int \<times> int \<times> real" where
  "progress_report s =
     (let remaining = int (length (urls_to_scrape s));
          processed = total_urls s - remaining;
          progress = (if total_urls s > 0
                      then (real_of_int processed / real_of_int (total_urls s)) * 100 else 0)
      in (remaining, processed, progress))"

definition scrape_manager :: "'v OverallState \<Rightarrow> 'v OverallState" where
  "scrape_manager s =
     (if urls_to_scrape s = [] then s
      else (let report = progress_report s in s))"

subsection \<open>send_to_scraper\<close>

record Seed =
  seed_url :: string
  seed_keyword :: string

datatype Send = Send string Seed

definition send_to_scraper :: "'v OverallState \<Rightarrow> Send list" where
  "send_to_scraper s =
     (if urls_to_scrape s = [] then []
      else map (\<lambda>url. Send ''scraper'' \<lparr> seed_url = url, seed_keyword = keyword s \<rparr>)
               (urls_to_scrape s))"

subsection \<open>scraper\<close>

record LlmConfig =
  api_key :: string
  model :: string
  temperature :: real

record GraphConfig =
  llm :: LlmConfig
  verbose :: bool
  headless :: bool

text \<open>
  What \<^verbatim>\<open>SmartScraperGraph(prompt, source, config).run()\<close> does: it raises an
  \<^verbatim>\<open>Exception\<close> \<open>e\<close> (\<open>Raised (str e)\<close>), returns a dictionary, or returns some other
  value. The routine itself is the parameter \<open>extractor\<close> of the node.
\<close>

datatype 'v extraction = Raised string | ReturnedDict "'v py_dict" | ReturnedOther "'v py_value"

type_synonym 'v extractor = "string \<Rightarrow> string \<Rightarrow> GraphConfig \<Rightarrow> 'v extraction"

definition prompt_for :: "string \<Rightarrow> string" where
  "prompt_for kw =
     ''Extract information related to '' @ [CHR 0x27] @ kw @ [CHR 0x27]
       @ ''. Summarize the key points concisely. ''
       @ ''If the keyword is not mentioned or relevant, state that clearly.''
       @ ''Add full source url without modification where you found keyword.''"

definition graph_config_for :: "string \<Rightarrow> GraphConfig" where
  "graph_config_for key =
     \<lparr> llm = \<lparr> api_key = key, model = ''gpt-4o'', temperature = 1 / 10 \<rparr>,
       verbose = True, headless = True \<rparr>"

text \<open>The relevance test of the success path, on the dictionary the extractor returned.\<close>

definition relevant :: "('v py_value \<Rightarrow> string) \<Rightarrow> string \<Rightarrow> 'v py_dict \<Rightarrow> bool" where
  "relevant py_repr kw result =
     (let summary = lower (str_dict_values py_repr result)
      in str_in (lower kw) summary
         \<and> \<not> str_in ''not mentioned'' summary
         \<and> \<not> str_in ''not relevant'' summary)"

text \<open>
  For comparison, the test as the specification words it: on the stringification of the
  record itself. \<^verbatim>\<open>str(d)\<close> of a dictionary is an opening brace, the entries
  \<^verbatim>\<open>repr(key): repr(value)\<close> separated by a comma and a space, and a closing brace.
\<close>

definition str_dict :: "('v py_value \<Rightarrow> string) \<Rightarrow> 'v py_dict \<Rightarrow> string" where
  "str_dict py_repr d =
     ''{'' @ join '', '' (map (\<lambda>(k, v). py_repr (PyStr k) @ '': '' @ py_repr v) d) @ ''}''"

definition relevant_as_stated :: "('v py_value \<Rightarrow> string) \<Rightarrow> string \<Rightarrow> 'v py_dict \<Rightarrow> bool" where
  "relevant_as_stated py_repr kw result =
     (let summary = lower (str_dict py_repr result)
      in str_in (lower kw) summary
         \<and> \<not> str_in ''not mentioned'' summary
         \<and> \<not> str_in ''not relevant'' summary)"

definition scraper ::
  "('v py_value \<Rightarrow> string) \<Rightarrow> ('v \<Rightarrow> string) \<Rightarrow> 'v extractor
     \<Rightarrow> 'v OverallState \<Rightarrow> RunConfig \<Rightarrow> 'v StateUpdate" where
  "scraper py_repr str_other extractor s config =
     (case urls_to_scrape s of
        [] \<Rightarrow> no_update
               \<lparr> upd_extracted_info := Some None,
                 upd_extracted_from_url := Some None,
                 upd_is_information_found := Some (Some False),
                 upd_urls_to_scrape := Some [] \<rparr>
      | url # remaining_urls \<Rightarrow>
          (let key = openai_api_key (settings config)
           in if key = [] then
                no_update
                  \<lparr> upd_extracted_info := Some None,
                    upd_extracted_from_url := Some (Some url),
                    upd_is_information_found := Some (Some False) \<rparr>
              else
                (let (extracted_data, information_found) =
                       (case extractor (prompt_for (keyword s)) url (graph_config_for key) of
                          ReturnedDict result \<Rightarrow> (result, relevant py_repr (keyword s) result)
                        | ReturnedOther result \<Rightarrow>
                            ([(''raw_output'', PyStr (py_str str_other result))], False)
                        | Raised msg \<Rightarrow> ([(''error'', PyStr msg)], False))
                 in no_update
                      \<lparr> upd_extracted_info := Some (Some extracted_data),
                        upd_extracted_from_url := Some (Some url),
                        upd_is_information_found := Some (Some information_found),
                        upd_urls_to_scrape := Some remaining_urls \<rparr>)))"

subsection \<open>evaluate and the routing function\<close>

definition evaluate :: "'v OverallState \<Rightarrow> 'v StateUpdate" where
  "evaluate s =
     (if truthy (is_information_found s)
      then no_update \<lparr> upd_is_information_found := Some (Some True) \<rparr>
      else no_update \<lparr> upd_is_information_found := Some (Some False) \<rparr>)"

definition should_continue_scraping :: "'v OverallState \<Rightarrow> string" where
  "should_continue_scraping s =
     (if truthy (is_information_found s) then ''end_process''
      else if current_url_index s < total_urls s then ''continue_scraping''
      else ''end_process'')"

section \<open>The graph\<close>

subsection \<open>Merging a node's output into the state\<close>

text \<open>
  Modelled from the spec: the Executor's merge step, which belongs to the graph runtime (a
  library) and not to the module. A node returns only the fields it writes; a field with a
  reducer in \<^verbatim>\<open>OverallState\<close> (\<^verbatim>\<open>first_non_null\<close> for \<^verbatim>\<open>extracted_info\<close> and
  \<^verbatim>\<open>extracted_from_url\<close>, \<^verbatim>\<open>or_\<close> for \<^verbatim>\<open>is_information_found\<close>) becomes
  \<open>reducer current written\<close>, a field without one takes the written value, and a field the
  node did not return keeps its value. An error raised by a reducer aborts the merge.
\<close>

definition last_value :: "'a \<Rightarrow> 'a option \<Rightarrow> 'a" where
  "last_value current written = (case written of None \<Rightarrow> current | Some v \<Rightarrow> v)"

definition merge_state :: "'v OverallState \<Rightarrow> 'v StateUpdate \<Rightarrow> py_error + 'v OverallState" where
  "merge_state s u =
     (case (case upd_is_information_found u of
              None \<Rightarrow> Inr (is_information_found s)
            | Some b \<Rightarrow> py_or (is_information_found s) b) of
        Inl e \<Rightarrow> Inl e
      | Inr found \<Rightarrow>
          Inr \<lparr> initial_urls = last_value (initial_urls s) (upd_initial_urls u),
                current_url_index = last_value (current_url_index s) (upd_current_url_index u),
                total_urls = last_value (total_urls s) (upd_total_urls u),
                urls_to_scrape = last_value (urls_to_scrape s) (upd_urls_to_scrape u),
                extracted_info =
                  (case upd_extracted_info u of
                     None \<Rightarrow> extracted_info s
                   | Some v \<Rightarrow> first_non_null (extracted_info s) v),
                extracted_from_url =
                  (case upd_extracted_from_url u of
                     None \<Rightarrow> extracted_from_url s
                   | Some v \<Rightarrow> first_non_null (extracted_from_url s) v),
                is_information_found = found,
                keyword = last_value (keyword s) (upd_keyword u) \<rparr>)"

subsection \<open>Nodes and edges of create_graph\<close>

text \<open>
  \<^verbatim>\<open>create_graph\<close> registers four nodes and these edges: the start edge to
  \<^verbatim>\<open>initialize_state\<close>, then \<^verbatim>\<open>scrape_manager\<close>; from \<^verbatim>\<open>scrape_manager\<close> a
  conditional edge to \<^verbatim>\<open>scraper\<close> or \<^verbatim>\<open>evaluate\<close>; from \<^verbatim>\<open>scraper\<close> to
  \<^verbatim>\<open>evaluate\<close>; from \<^verbatim>\<open>evaluate\<close> the conditional edge \<^verbatim>\<open>should_continue_scraping\<close>
  with the table \<^verbatim>\<open>continue_scraping\<close> to \<^verbatim>\<open>scrape_manager\<close>, \<^verbatim>\<open>end_process\<close> to the
  end marker. \<^verbatim>\<open>send_to_scraper\<close> is not registered on any edge, so the scraper node
  runs once per pass, on the whole state.
\<close>

datatype node = ScrapeManagerNode | ScraperNode | EvaluateNode

datatype target = Goto node | End

definition route_after_scrape_manager :: "'v OverallState \<Rightarrow> string" where
  "route_after_scrape_manager s = (if urls_to_scrape s \<noteq> [] then ''scraper'' else ''evaluate'')"

definition follow :: "(string \<times> target) list \<Rightarrow> string \<Rightarrow> py_error + target" where
  "follow table label = (case map_of table label of None \<Rightarrow> Inl KeyError | Some t \<Rightarrow> Inr t)"

fun next_node :: "node \<Rightarrow> 'v OverallState \<Rightarrow> py_error + target" where
  "next_node ScrapeManagerNode s =
     follow [(''scraper'', Goto ScraperNode), (''evaluate'', Goto EvaluateNode)]
       (route_after_scrape_manager s)"
| "next_node ScraperNode s = Inr (Goto EvaluateNode)"
| "next_node EvaluateNode s =
     follow [(''continue_scraping'', Goto ScrapeManagerNode), (''end_process'', End)]
       (should_continue_scraping s)"

fun node_output ::
  "('v py_value \<Rightarrow> string) \<Rightarrow> ('v \<Rightarrow> string) \<Rightarrow> 'v extractor \<Rightarrow> RunConfig
     \<Rightarrow> node \<Rightarrow> 'v OverallState \<Rightarrow> 'v StateUpdate" where
  "node_output py_repr str_other extractor config ScrapeManagerNode s =
     whole_state (scrape_manager s)"
| "node_output py_repr str_other extractor config ScraperNode s =
     scraper py_repr str_other extractor s config"
| "node_output py_repr str_other extractor config EvaluateNode s = evaluate s"

text \<open>
  \<^verbatim>\<open>create_graph\<close> compiles the graph with \<^verbatim>\<open>checkpointer=None\<close> and
  \<^verbatim>\<open>interrupt_after=["evaluate"]\<close>: the run pauses once \<^verbatim>\<open>evaluate\<close> has run. \<^verbatim>\<open>main\<close>
  streams the graph once and never resumes it, and without a checkpointer there is nothing
  to resume from, so a pause is where the run stops.
\<close>

definition interrupt_after :: "node list" where
  "interrupt_after = [EvaluateNode]"

text \<open>
  How a run stops: at the end marker, at a pause with the node that would have run next,
  or with an error.
\<close>

datatype 'v stop = Ended "'v OverallState" | Paused node "'v OverallState" | Aborted py_error

text \<open>
  Modelled from the spec: the Executor loop of the graph runtime. It runs the current
  node, merges its output and evaluates the edge that leaves the node on the merged state.
  If the edge leads to the end marker the run has ended. Otherwise, if the node is listed
  in \<^verbatim>\<open>interrupt_after\<close>, the run pauses there; if not, the loop goes on with the next
  node. \<open>run_graph n\<close> runs at most \<open>n\<close> nodes: \<open>None\<close> means the run has not stopped
  within \<open>n\<close> nodes, \<open>Some (trace, how)\<close> gives the nodes that ran, in order, and how the
  run stopped.
\<close>

fun run_graph ::
  "nat \<Rightarrow> ('v py_value \<Rightarrow> string) \<Rightarrow> ('v \<Rightarrow> string) \<Rightarrow> 'v extractor \<Rightarrow> RunConfig
     \<Rightarrow> node list \<Rightarrow> node \<Rightarrow> 'v OverallState \<Rightarrow> (node list \<times> 'v stop) option" where
  "run_graph 0 py_repr str_other extractor config pauses nd s = None"
| "run_graph (Suc n) py_repr str_other extractor config pauses nd s =
     (case merge_state s (node_output py_repr str_other extractor config nd s) of
        Inl e \<Rightarrow> Some ([nd], Aborted e)
      | Inr s' \<Rightarrow>
          (case next_node nd s' of
             Inl e \<Rightarrow> Some ([nd], Aborted e)
           | Inr End \<Rightarrow> Some ([nd], Ended s')
           | Inr (Goto nd') \<Rightarrow>
               if nd \<in> set pauses then Some ([nd], Paused nd' s')
               else (case run_graph n py_repr str_other extractor config pauses nd' s' of
                       None \<Rightarrow> None
                     | Some (trace, how) \<Rightarrow> Some (nd # trace, how))))"

text \<open>
  The graph is built on \<^verbatim>\<open>OverallState\<close>, so the keys of \<^verbatim>\<open>OverallState\<close> are its input
  channels. \<^verbatim>\<open>keyword\<close> is one of them; \<^verbatim>\<open>urls\<close> is not, and the runtime hands a node
  only the keys of the schema: \<^verbatim>\<open>initialize_state\<close> never sees the caller's \<^verbatim>\<open>urls\<close> and
  falls back on its default.
\<close>

definition graph_input :: "InputState \<Rightarrow> InputState" where
  "graph_input inp = inp \<lparr> urls := None \<rparr>"

text \<open>
  A run of the compiled graph from the caller's input: \<^verbatim>\<open>initialize_state\<close> creates the
  state from what the graph passes on, then the loop starts at \<^verbatim>\<open>scrape_manager\<close>.
\<close>

definition invoke ::
  "nat \<Rightarrow> ('v py_value \<Rightarrow> string) \<Rightarrow> ('v \<Rightarrow> string) \<Rightarrow> 'v extractor \<Rightarrow> RunConfig
     \<Rightarrow> InputState \<Rightarrow> (node list \<times> 'v stop) option" where
  "invoke n py_repr str_other extractor config inp =
     run_graph n py_repr str_other extractor config interrupt_after ScrapeManagerNode
       (initialize_state (graph_input inp))"

section \<open>Example inputs\<close>

text \<open>
  Concrete values for the instances below: the only opaque object is Python's \<^verbatim>\<open>None\<close>,
  strings are free of quotes and escapes so that their \<^verbatim>\<open>repr\<close> is the string in single
  quotes.
\<close>

fun repr_plain :: "unit py_value \<Rightarrow> string" where
  "repr_plain (PyStr s) = [CHR 0x27] @ s @ [CHR 0x27]"
| "repr_plain (PyOther u) = ''None''"

definition str_none :: "unit \<Rightarrow> string" where
  "str_none u = ''None''"

definition failing_extractor :: "unit extractor" where
  "failing_extractor prompt source cfg = Raised ''connection refused''"

definition empty_extractor :: "unit extractor" where
  "empty_extractor prompt source cfg = ReturnedDict []"

definition with_key :: RunConfig where
  "with_key = \<lparr> settings = \<lparr> openai_api_key = ''sk-test'' \<rparr> \<rparr>"

definition without_key :: RunConfig where
  "without_key = \<lparr> settings = \<lparr> openai_api_key = [] \<rparr> \<rparr>"

definition two_urls :: InputState where
  "two_urls = \<lparr> urls = Some (UrlList [''a.example'', ''b.example'']),
                input_keyword = Some ''foo'' \<rparr>"

definition one_url :: InputState where
  "one_url = \<lparr> urls = Some (UrlList [''a.example'']), input_keyword = Some ''foo'' \<rparr>"

definition dict_keyword :: InputState where
  "dict_keyword = \<lparr> urls = Some (UrlList [''a.example'']), input_keyword = Some ''dict'' \<rparr>"

definition empty_input :: InputState where
  "empty_input = \<lparr> urls = None, input_keyword = Some [] \<rparr>"

definition bare_string_input :: InputState where
  "bare_string_input = \<lparr> urls = Some (UrlStr ''c.example''), input_keyword = None \<rparr>"

definition foo_bar_extractor :: "unit extractor" where
  "foo_bar_extractor prompt source cfg = ReturnedDict [(''foo'', PyStr ''bar'')]"

definition foo_extractor :: "unit extractor" where
  "foo_extractor prompt source cfg = ReturnedDict [(''summary'', PyStr ''Foo is great'')]"

text \<open>The state after one successful scrape of the one-URL input.\<close>

definition found_state :: "unit OverallState" where
  "found_state =
     \<lparr> initial_urls = [''a.example''], current_url_index = 0, total_urls = 1,
       urls_to_scrape = [], extracted_info = Some [(''summary'', PyStr ''Foo is great'')],
       extracted_from_url = Some ''a.example'', is_information_found = Some True,
       keyword = ''foo'' \<rparr>"

section \<open>Auxiliary facts\<close>

text \<open>\<open>str_in\<close> is containment as a contiguous run.\<close>

lemma starts_with_iff: "starts_with p s \<longleftrightarrow> (\<exists>r. s = p @ r)"
  by (induction p s rule: starts_with.induct) auto

lemma str_in_iff: "str_in needle hay \<longleftrightarrow> (\<exists>a b. hay = a @ needle @ b)"
proof (induction hay)
  case Nil
  then show ?case by auto
next
  case (Cons c cs)
  show ?case
  proof
    assume "str_in needle (c # cs)"
    then consider "starts_with needle (c # cs)" | "str_in needle cs" by auto
    then show "\<exists>a b. c # cs = a @ needle @ b"
    proof cases
      case 1
      then obtain r where "c # cs = needle @ r" by (auto simp: starts_with_iff)
      then have "c # cs = [] @ needle @ r" by simp
      then show ?thesis by blast
    next
      case 2
      then obtain a b where "cs = a @ needle @ b" using Cons.IH by auto
      then have "c # cs = (c # a) @ needle @ b" by simp
      then show ?thesis by blast
    qed
  next
    assume "\<exists>a b. c # cs = a @ needle @ b"
    then obtain a b where ab: "c # cs = a @ needle @ b" by auto
    show "str_in needle (c # cs)"
    proof (cases a)
      case Nil
      then have "starts_with needle (c # cs)" using ab by (auto simp: starts_with_iff)
      then show ?thesis by simp
    next
      case (Cons x xs)
      then have "cs = xs @ needle @ b" using ab by simp
      then have "str_in needle cs" using Cons.IH by blast
      then show ?thesis by simp
    qed
  qed
qed

lemma merge_whole_state:
  "is_information_found s = Some b \<Longrightarrow> merge_state s (whole_state s) = Inr s"
  by (simp add: merge_state_def whole_state_def last_value_def first_non_null_def
      split: option.splits)

lemma scrape_manager_returns_input: "scrape_manager s = s"
  by (simp add: scrape_manager_def)

text \<open>The state every run starts from: one URL, the default one.\<close>

lemma initialize_state_graph_input:
  "(initialize_state (graph_input inp) :: 'v OverallState) =
     \<lparr> initial_urls = [''https://python.langchain.com''], current_url_index = 0,
       total_urls = 1, urls_to_scrape = [''https://python.langchain.com''],
       extracted_info = None, extracted_from_url = None, is_information_found = Some False,
       keyword = (case input_keyword inp of
                    None \<Rightarrow> ''How to track token usage for LLMs''
                  | Some k \<Rightarrow> if k = [] then ''How to track token usage for LLMs'' else k) \<rparr>"
  by (simp add: initialize_state_def graph_input_def Let_def split: option.splits)

text \<open>
  Whatever the input and the extractor, a run in which the scraper task reports
  \<^verbatim>\<open>is_information_found = False\<close> runs \<^verbatim>\<open>scrape_manager\<close>, \<^verbatim>\<open>scraper\<close> and
  \<^verbatim>\<open>evaluate\<close> once each; the routing function then answers \<^verbatim>\<open>continue_scraping\<close>,
  because \<^verbatim>\<open>current_url_index\<close> is still \<open>0\<close> and \<^verbatim>\<open>total_urls\<close> is \<open>1\<close>, and the run
  stops at the pause with \<^verbatim>\<open>scrape_manager\<close> pending.
\<close>

lemma not_found_run_stops_at_pause:
  assumes nf: "upd_is_information_found
                 (scraper py_repr str_other extractor (initialize_state (graph_input inp)) config)
               = Some (Some False)"
  shows "\<exists>s'. invoke (3 + k) py_repr str_other extractor config inp
                = Some ([ScrapeManagerNode, ScraperNode, EvaluateNode],
                        Paused ScrapeManagerNode s')
              \<and> is_information_found s' = Some False
              \<and> current_url_index s' = 0 \<and> total_urls s' = 1"
proof -
  let ?s0 = "initialize_state (graph_input inp) :: 'a OverallState"
  let ?u = "scraper py_repr str_other extractor ?s0 config"
  have s0: "is_information_found ?s0 = Some False" "current_url_index ?s0 = 0"
    "total_urls ?s0 = 1" "urls_to_scrape ?s0 \<noteq> []"
    by (simp_all add: initialize_state_graph_input)
  have m0: "merge_state ?s0 (whole_state (scrape_manager ?s0)) = Inr ?s0"
    using merge_whole_state [OF s0(1)] by (simp add: scrape_manager_returns_input)
  have n0: "next_node ScrapeManagerNode ?s0 = Inr (Goto ScraperNode)"
    using s0(4) by (simp add: follow_def route_after_scrape_manager_def)
  have uc: "upd_current_url_index ?u = None" "upd_total_urls ?u = None"
    by (simp_all add: scraper_def no_update_def Let_def
        split: list.splits extraction.splits prod.splits)
  obtain s1 where m1: "merge_state ?s0 ?u = Inr s1"
    and s1: "is_information_found s1 = Some False" "current_url_index s1 = 0"
      "total_urls s1 = 1"
    using nf uc s0 by (simp add: merge_state_def last_value_def)
  have ev: "evaluate s1 = no_update \<lparr> upd_is_information_found := Some (Some False) \<rparr>"
    using s1(1) by (simp add: evaluate_def)
  obtain s2 where m2: "merge_state s1 (evaluate s1) = Inr s2"
    and s2: "is_information_found s2 = Some False" "current_url_index s2 = 0"
      "total_urls s2 = 1"
    using s1 by (simp add: ev merge_state_def last_value_def no_update_def)
  have n2: "next_node EvaluateNode s2 = Inr (Goto ScrapeManagerNode)"
    using s2 by (simp add: follow_def should_continue_scraping_def)
  have "invoke (Suc (Suc (Suc k))) py_repr str_other extractor config inp
          = Some ([ScrapeManagerNode, ScraperNode, EvaluateNode], Paused ScrapeManagerNode s2)"
    using m0 n0 m1 m2 n2 by (simp add: invoke_def interrupt_after_def)
  then show ?thesis using s2 by (auto simp add: numeral_3_eq_3)
qed

section \<open>The routing function and termination\<close>

text \<open>
  C1. Exhaustion termination: a run in which every scraper task reports
  \<^verbatim>\<open>is_information_found = false\<close> should reach the end marker within \<^verbatim>\<open>total_urls\<close>
  batches. The run of the compiled graph does not reach it. For the input with two URLs
  and keyword \<^verbatim>\<open>foo\<close> and an extractor that raises on every call, the graph passes on the
  keyword only, so the state holds the one default URL; \<^verbatim>\<open>scrape_manager\<close>,
  \<^verbatim>\<open>scraper\<close> and \<^verbatim>\<open>evaluate\<close> run once each and leave the queue empty and the flag
  false. No node advances \<^verbatim>\<open>current_url_index\<close>: it is still \<open>0\<close>, below
  \<^verbatim>\<open>total_urls = 1\<close>, so the routing function answers \<^verbatim>\<open>continue_scraping\<close> instead of
  taking its exhaustion branch, and the run stops at the pause after \<^verbatim>\<open>evaluate\<close> with
  \<^verbatim>\<open>scrape_manager\<close> pending, for every budget of three nodes or more.
\<close>

theorem exhausted_run_stops_short_of_end:
  "invoke (3 + k) repr_plain str_none failing_extractor with_key two_urls =
     Some ([ScrapeManagerNode, ScraperNode, EvaluateNode],
           Paused ScrapeManagerNode
             \<lparr> initial_urls = [''https://python.langchain.com''], current_url_index = 0,
               total_urls = 1, urls_to_scrape = [],
               extracted_info = Some [(''error'', PyStr ''connection refused'')],
               extracted_from_url = Some ''https://python.langchain.com'',
               is_information_found = Some False, keyword = ''foo'' \<rparr>)"
proof -
  have s0: "(initialize_state (graph_input two_urls) :: unit OverallState) =
     \<lparr> initial_urls = [''https://python.langchain.com''], current_url_index = 0,
       total_urls = 1, urls_to_scrape = [''https://python.langchain.com''],
       extracted_info = None, extracted_from_url = None, is_information_found = Some False,
       keyword = ''foo'' \<rparr>"
    by (simp add: initialize_state_graph_input two_urls_def)
  have "invoke (Suc (Suc (Suc k))) repr_plain str_none failing_extractor with_key two_urls =
     Some ([ScrapeManagerNode, ScraperNode, EvaluateNode],
           Paused ScrapeManagerNode
             \<lparr> initial_urls = [''https://python.langchain.com''], current_url_index = 0,
               total_urls = 1, urls_to_scrape = [],
               extracted_info = Some [(''error'', PyStr ''connection refused'')],
               extracted_from_url = Some ''https://python.langchain.com'',
               is_information_found = Some False, keyword = ''foo'' \<rparr>)"
    by (simp add: invoke_def s0 interrupt_after_def scrape_manager_def
        whole_state_def merge_state_def last_value_def first_non_null_def follow_def
        route_after_scrape_manager_def scraper_def failing_extractor_def with_key_def
        no_update_def evaluate_def should_continue_scraping_def)
  then show ?thesis by (simp add: numeral_3_eq_3)
qed

text \<open>
  C2. The routing function follows its decision table: with the flag true it answers
  \<^verbatim>\<open>end_process\<close>, which the edge table maps to the end marker; with the flag false and
  \<^verbatim>\<open>current_url_index < total_urls\<close> it answers \<^verbatim>\<open>continue_scraping\<close>, mapped to
  \<^verbatim>\<open>scrape_manager\<close>; with the flag false and \<^verbatim>\<open>current_url_index >= total_urls\<close> it
  answers \<^verbatim>\<open>end_process\<close>.
\<close>

theorem should_continue_scraping_table:
  "(is_information_found s = Some True \<longrightarrow>
      should_continue_scraping s = ''end_process'' \<and> next_node EvaluateNode s = Inr End)
   \<and> (is_information_found s = Some False \<and> current_url_index s < total_urls s \<longrightarrow>
      should_continue_scraping s = ''continue_scraping''
      \<and> next_node EvaluateNode s = Inr (Goto ScrapeManagerNode))
   \<and> (is_information_found s = Some False \<and> current_url_index s \<ge> total_urls s \<longrightarrow>
      should_continue_scraping s = ''end_process'' \<and> next_node EvaluateNode s = Inr End)"
  by (simp add: should_continue_scraping_def follow_def)

theorem should_continue_scraping_table_witness:
  "(is_information_found ((initialize_state one_url :: unit OverallState)
        \<lparr> is_information_found := Some True \<rparr>) = Some True
    \<and> should_continue_scraping ((initialize_state one_url :: unit OverallState)
        \<lparr> is_information_found := Some True \<rparr>) = ''end_process'')
   \<and> (is_information_found (initialize_state one_url :: unit OverallState) = Some False
    \<and> current_url_index (initialize_state one_url :: unit OverallState)
        < total_urls (initialize_state one_url :: unit OverallState)
    \<and> should_continue_scraping (initialize_state one_url :: unit OverallState)
        = ''continue_scraping'')
   \<and> (is_information_found ((initialize_state one_url :: unit OverallState)
        \<lparr> current_url_index := 1 \<rparr>) = Some False
    \<and> current_url_index ((initialize_state one_url :: unit OverallState)
        \<lparr> current_url_index := 1 \<rparr>)
        \<ge> total_urls ((initialize_state one_url :: unit OverallState)
        \<lparr> current_url_index := 1 \<rparr>)
    \<and> should_continue_scraping ((initialize_state one_url :: unit OverallState)
        \<lparr> current_url_index := 1 \<rparr>) = ''end_process'')"
  using should_continue_scraping_table
          [of "(initialize_state one_url :: unit OverallState) \<lparr> is_information_found := Some True \<rparr>"]
        should_continue_scraping_table [of "initialize_state one_url :: unit OverallState"]
        should_continue_scraping_table
          [of "(initialize_state one_url :: unit OverallState) \<lparr> current_url_index := 1 \<rparr>"]
  by (simp add: initialize_state_def one_url_def Let_def)

section \<open>initialize_state\<close>

text \<open>
  C6. For an input whose \<^verbatim>\<open>urls\<close> is a non-empty list of length \<open>N\<close> and whose keyword
  is non-empty, \<^verbatim>\<open>initialize_state\<close> returns the state with \<^verbatim>\<open>total_urls = N\<close>,
  \<^verbatim>\<open>urls_to_scrape\<close> and \<^verbatim>\<open>initial_urls\<close> equal to the list in the same order,
  \<^verbatim>\<open>current_url_index = 0\<close>, \<^verbatim>\<open>is_information_found = False\<close>, and
  \<^verbatim>\<open>extracted_info\<close> and \<^verbatim>\<open>extracted_from_url\<close> both \<^verbatim>\<open>None\<close>.
\<close>

theorem initialize_state_from_list:
  assumes "urls inp = Some (UrlList us)" and "us \<noteq> []"
    and "input_keyword inp = Some kw" and "kw \<noteq> []"
  shows "initialize_state inp =
           \<lparr> initial_urls = us, current_url_index = 0, total_urls = int (length us),
             urls_to_scrape = us, extracted_info = None, extracted_from_url = None,
             is_information_found = Some False, keyword = kw \<rparr>"
  using assms by (simp add: initialize_state_def)

theorem initialize_state_from_list_witness:
  "urls two_urls = Some (UrlList [''a.example'', ''b.example''])
   \<and> [''a.example'', ''b.example''] \<noteq> []
   \<and> input_keyword two_urls = Some ''foo'' \<and> ''foo'' \<noteq> []
   \<and> (initialize_state two_urls :: unit OverallState) =
        \<lparr> initial_urls = [''a.example'', ''b.example''], current_url_index = 0, total_urls = 2,
          urls_to_scrape = [''a.example'', ''b.example''], extracted_info = None,
          extracted_from_url = None, is_information_found = Some False, keyword = ''foo'' \<rparr>"
  using initialize_state_from_list
          [of two_urls "[''a.example'', ''b.example'']" "''foo''"]
  by (simp add: two_urls_def)

text \<open>
  C7. \<^verbatim>\<open>initialize_state\<close> has no error path: on every input of the input schema each of
  its operations is defined, so it is a total function into states. If \<^verbatim>\<open>urls\<close> is
  absent or empty (an empty string or an empty list) the one built-in URL is substituted;
  if the keyword is absent or empty the built-in keyword is substituted; a non-empty bare
  string for \<^verbatim>\<open>urls\<close> becomes a single-element list.
\<close>

theorem initialize_state_defaults:
  "((urls inp = None \<or> urls inp = Some (UrlStr []) \<or> urls inp = Some (UrlList [])) \<longrightarrow>
      initial_urls (initialize_state inp :: 'v OverallState) = [''https://python.langchain.com'']
      \<and> urls_to_scrape (initialize_state inp :: 'v OverallState) = [''https://python.langchain.com'']
      \<and> total_urls (initialize_state inp :: 'v OverallState) = 1)
   \<and> ((input_keyword inp = None \<or> input_keyword inp = Some []) \<longrightarrow>
      keyword (initialize_state inp :: 'v OverallState) = ''How to track token usage for LLMs'')
   \<and> (urls inp = Some (UrlStr u) \<and> u \<noteq> [] \<longrightarrow>
      initial_urls (initialize_state inp :: 'v OverallState) = [u]
      \<and> urls_to_scrape (initialize_state inp :: 'v OverallState) = [u]
      \<and> total_urls (initialize_state inp :: 'v OverallState) = 1)"
  by (auto simp add: initialize_state_def Let_def)

theorem initialize_state_defaults_witness:
  "(urls empty_input = None \<and> input_keyword empty_input = Some []
    \<and> initial_urls (initialize_state empty_input :: unit OverallState)
        = [''https://python.langchain.com'']
    \<and> keyword (initialize_state empty_input :: unit OverallState)
        = ''How to track token usage for LLMs'')
   \<and> (urls bare_string_input = Some (UrlStr ''c.example'') \<and> ''c.example'' \<noteq> []
    \<and> input_keyword bare_string_input = None
    \<and> initial_urls (initialize_state bare_string_input :: unit OverallState) = [''c.example'']
    \<and> keyword (initialize_state bare_string_input :: unit OverallState)
        = ''How to track token usage for LLMs'')"
  using initialize_state_defaults [where ?'v = unit and inp = empty_input and u = "''c.example''"]
    initialize_state_defaults [where ?'v = unit and inp = bare_string_input and u = "''c.example''"]
  by (simp add: empty_input_def bare_string_input_def)

section \<open>scrape_manager and send_to_scraper\<close>

text \<open>
  C9. \<^verbatim>\<open>scrape_manager\<close> does not mutate the state: on both of its paths (empty queue,
  non-empty queue) the state it returns is the state it received.
\<close>

theorem scrape_manager_does_not_mutate: "scrape_manager s = s"
  by (simp add: scrape_manager_def)

text \<open>
  C4. \<^verbatim>\<open>send_to_scraper\<close> returns the empty list when \<^verbatim>\<open>urls_to_scrape\<close> is empty;
  otherwise it returns one task per entry of \<^verbatim>\<open>urls_to_scrape\<close>, in order, each
  addressed to the node \<^verbatim>\<open>scraper\<close> and seeded with that entry as \<^verbatim>\<open>url\<close> and the
  state's keyword as \<^verbatim>\<open>keyword\<close>.
\<close>

theorem send_to_scraper_tasks:
  "(urls_to_scrape s = [] \<longrightarrow> send_to_scraper s = [])
   \<and> (urls_to_scrape s \<noteq> [] \<longrightarrow>
        length (send_to_scraper s) = length (urls_to_scrape s)
        \<and> (\<forall>i < length (urls_to_scrape s).
              send_to_scraper s ! i =
                Send ''scraper'' \<lparr> seed_url = urls_to_scrape s ! i, seed_keyword = keyword s \<rparr>))"
  by (simp add: send_to_scraper_def)

theorem send_to_scraper_tasks_witness:
  "urls_to_scrape (initialize_state two_urls :: unit OverallState) \<noteq> []
   \<and> send_to_scraper (initialize_state two_urls :: unit OverallState) =
       [Send ''scraper'' \<lparr> seed_url = ''a.example'', seed_keyword = ''foo'' \<rparr>,
        Send ''scraper'' \<lparr> seed_url = ''b.example'', seed_keyword = ''foo'' \<rparr>]
   \<and> urls_to_scrape found_state = []
   \<and> send_to_scraper found_state = []"
  using send_to_scraper_tasks [of "initialize_state two_urls :: unit OverallState"]
    send_to_scraper_tasks [of found_state]
  by (simp add: initialize_state_def two_urls_def found_state_def Let_def send_to_scraper_def)

section \<open>scraper\<close>

text \<open>
  C3. Failure containment: on a state with a non-empty queue, when the extractor is run
  (the API key is non-empty, otherwise the node returns before calling it) and raises an
  exception with message \<open>msg\<close>, the node returns normally: \<^verbatim>\<open>extracted_info\<close> is
  \<^verbatim>\<open>{"error": msg}\<close>, \<^verbatim>\<open>is_information_found\<close> is \<^verbatim>\<open>False\<close>, the source URL is the
  head of the queue and the new queue is its tail.
\<close>

theorem scraper_contains_extractor_error:
  assumes "urls_to_scrape s = url # remaining_urls"
    and "openai_api_key (settings config) \<noteq> []"
    and "extractor (prompt_for (keyword s)) url
           (graph_config_for (openai_api_key (settings config))) = Raised msg"
  shows "scraper py_repr str_other extractor s config =
           no_update \<lparr> upd_extracted_info := Some (Some [(''error'', PyStr msg)]),
                       upd_extracted_from_url := Some (Some url),
                       upd_is_information_found := Some (Some False),
                       upd_urls_to_scrape := Some remaining_urls \<rparr>"
  using assms by (simp add: scraper_def)

theorem scraper_contains_extractor_error_witness:
  "urls_to_scrape (initialize_state two_urls :: unit OverallState) = ''a.example'' # [''b.example'']
   \<and> openai_api_key (settings with_key) \<noteq> []
   \<and> failing_extractor (prompt_for (keyword (initialize_state two_urls :: unit OverallState)))
        ''a.example'' (graph_config_for (openai_api_key (settings with_key)))
      = Raised ''connection refused''
   \<and> scraper repr_plain str_none failing_extractor (initialize_state two_urls) with_key =
        no_update \<lparr> upd_extracted_info := Some (Some [(''error'', PyStr ''connection refused'')]),
                    upd_extracted_from_url := Some (Some ''a.example''),
                    upd_is_information_found := Some (Some False),
                    upd_urls_to_scrape := Some [''b.example''] \<rparr>"
proof -
  have q: "urls_to_scrape (initialize_state two_urls :: unit OverallState)
             = ''a.example'' # [''b.example'']"
    by (simp add: initialize_state_def two_urls_def Let_def)
  have k: "openai_api_key (settings with_key) \<noteq> []"
    by (simp add: with_key_def)
  have e: "failing_extractor (prompt_for (keyword (initialize_state two_urls :: unit OverallState)))
        ''a.example'' (graph_config_for (openai_api_key (settings with_key)))
      = Raised ''connection refused''"
    by (simp add: failing_extractor_def)
  show ?thesis
    using q k e
      scraper_contains_extractor_error
        [where extractor = failing_extractor and py_repr = repr_plain and str_other = str_none,
         OF q k e]
    by simp
qed

text \<open>
  C5, as amended. When the extractor returns a dictionary, the node sets
  \<^verbatim>\<open>is_information_found\<close> to true if and only if the lower-cased text
  \<^verbatim>\<open>str(result.values())\<close> (the stringification of the record's values view:
  \<^verbatim>\<open>dict_values([\<close>, the \<^verbatim>\<open>repr\<close> of each value, \<^verbatim>\<open>])\<close>) contains the lower-cased
  keyword and contains neither \<^verbatim>\<open>not mentioned\<close> nor \<^verbatim>\<open>not relevant\<close>; otherwise it
  sets it to false. The record itself becomes \<^verbatim>\<open>extracted_info\<close>.
\<close>

theorem scraper_relevance:
  assumes "urls_to_scrape s = url # remaining_urls"
    and "openai_api_key (settings config) \<noteq> []"
    and "extractor (prompt_for (keyword s)) url
           (graph_config_for (openai_api_key (settings config))) = ReturnedDict result"
  shows "upd_is_information_found (scraper py_repr str_other extractor s config) =
           Some (Some (str_in (lower (keyword s)) (lower (str_dict_values py_repr result))
                       \<and> \<not> str_in ''not mentioned'' (lower (str_dict_values py_repr result))
                       \<and> \<not> str_in ''not relevant'' (lower (str_dict_values py_repr result))))
         \<and> upd_extracted_info (scraper py_repr str_other extractor s config) = Some (Some result)"
  using assms by (simp add: scraper_def relevant_def Let_def no_update_def)

theorem scraper_relevance_witness:
  "urls_to_scrape (initialize_state one_url :: unit OverallState) = ''a.example'' # []
   \<and> openai_api_key (settings with_key) \<noteq> []
   \<and> foo_extractor (prompt_for (keyword (initialize_state one_url :: unit OverallState)))
        ''a.example'' (graph_config_for (openai_api_key (settings with_key)))
      = ReturnedDict [(''summary'', PyStr ''Foo is great'')]
   \<and> upd_is_information_found
        (scraper repr_plain str_none foo_extractor (initialize_state one_url) with_key)
      = Some (Some True)"
proof -
  have q: "urls_to_scrape (initialize_state one_url :: unit OverallState) = ''a.example'' # []"
    by (simp add: initialize_state_def one_url_def Let_def)
  have k: "openai_api_key (settings with_key) \<noteq> []"
    by (simp add: with_key_def)
  have e: "foo_extractor (prompt_for (keyword (initialize_state one_url :: unit OverallState)))
        ''a.example'' (graph_config_for (openai_api_key (settings with_key)))
      = ReturnedDict [(''summary'', PyStr ''Foo is great'')]"
    by (simp add: foo_extractor_def)
  have kw: "keyword (initialize_state one_url :: unit OverallState) = ''foo''"
    by (simp add: initialize_state_def one_url_def Let_def)
  have b: "(str_in (lower ''foo'')
              (lower (str_dict_values repr_plain [(''summary'', PyStr ''Foo is great'')]))
            \<and> \<not> str_in ''not mentioned''
                 (lower (str_dict_values repr_plain [(''summary'', PyStr ''Foo is great'')]))
            \<and> \<not> str_in ''not relevant''
                 (lower (str_dict_values repr_plain [(''summary'', PyStr ''Foo is great'')])))
           = True"
    by code_simp
  show ?thesis
    using q k e
      scraper_relevance
        [where extractor = foo_extractor and py_repr = repr_plain and str_other = str_none,
         OF q k e]
    by (simp only: kw b simp_thms)
qed

text \<open>
  C5, as stated, tests the stringification of the record itself. It fails at two inputs.
  With keyword \<^verbatim>\<open>dict\<close> and the empty record the node reports found, because the text
  \<^verbatim>\<open>dict_values([])\<close> contains the keyword, while the record's own stringification
  \<^verbatim>\<open>{}\<close> does not. With keyword \<^verbatim>\<open>foo\<close> and the record \<^verbatim>\<open>{'foo': 'bar'}\<close> the node
  reports not found, because keys are not part of \<^verbatim>\<open>dict_values(['bar'])\<close>, while the
  record's stringification contains the keyword and neither phrase.
\<close>

theorem scraper_relevance_counterexample:
  "upd_is_information_found
     (scraper repr_plain str_none empty_extractor (initialize_state dict_keyword) with_key)
     = Some (Some True)
   \<and> relevant_as_stated repr_plain ''dict'' [] = False
   \<and> upd_is_information_found
       (scraper repr_plain str_none foo_bar_extractor (initialize_state one_url) with_key)
       = Some (Some False)
   \<and> relevant_as_stated repr_plain ''foo'' [(''foo'', PyStr ''bar'')] = True"
  by code_simp

text \<open>
  C10. On a state with a non-empty queue, when the configured API key is the empty string
  the node returns \<^verbatim>\<open>extracted_info = None\<close> together with \<^verbatim>\<open>extracted_from_url\<close> set
  to the head of the queue and \<^verbatim>\<open>is_information_found = False\<close>; its output has no
  \<^verbatim>\<open>urls_to_scrape\<close> key, so every merge of it leaves the queue as it was (and the merge
  succeeds whenever the state's flag is a boolean).
\<close>

theorem scraper_without_api_key:
  assumes "urls_to_scrape s = url # remaining_urls"
    and "openai_api_key (settings config) = []"
  shows "scraper py_repr str_other extractor s config =
           no_update \<lparr> upd_extracted_info := Some None,
                       upd_extracted_from_url := Some (Some url),
                       upd_is_information_found := Some (Some False) \<rparr>
         \<and> upd_urls_to_scrape (scraper py_repr str_other extractor s config) = None
         \<and> (\<forall>s'. merge_state s (scraper py_repr str_other extractor s config) = Inr s'
                \<longrightarrow> urls_to_scrape s' = urls_to_scrape s)
         \<and> (is_information_found s \<noteq> None
                \<longrightarrow> (\<exists>s'. merge_state s (scraper py_repr str_other extractor s config) = Inr s'))"
  using assms
  by (cases "is_information_found s")
     (auto simp add: scraper_def no_update_def merge_state_def last_value_def)

theorem scraper_without_api_key_witness:
  "urls_to_scrape (initialize_state two_urls :: unit OverallState) = ''a.example'' # [''b.example'']
   \<and> openai_api_key (settings without_key) = []
   \<and> is_information_found (initialize_state two_urls :: unit OverallState) \<noteq> None
   \<and> merge_state (initialize_state two_urls)
        (scraper repr_plain str_none failing_extractor (initialize_state two_urls) without_key)
      = Inr \<lparr> initial_urls = [''a.example'', ''b.example''], current_url_index = 0,
              total_urls = 2, urls_to_scrape = [''a.example'', ''b.example''],
              extracted_info = None, extracted_from_url = Some ''a.example'',
              is_information_found = Some False, keyword = ''foo'' \<rparr>"
proof -
  have q: "urls_to_scrape (initialize_state two_urls :: unit OverallState)
             = ''a.example'' # [''b.example'']"
    by (simp add: initialize_state_def two_urls_def Let_def)
  have k: "openai_api_key (settings without_key) = []"
    by (simp add: without_key_def)
  have i: "(initialize_state two_urls :: unit OverallState) =
             \<lparr> initial_urls = [''a.example'', ''b.example''], current_url_index = 0,
               total_urls = 2, urls_to_scrape = [''a.example'', ''b.example''],
               extracted_info = None, extracted_from_url = None,
               is_information_found = Some False, keyword = ''foo'' \<rparr>"
    by (simp add: initialize_state_def two_urls_def Let_def)
  show ?thesis
    using q k
      scraper_without_api_key
        [where extractor = failing_extractor and py_repr = repr_plain and str_other = str_none,
         OF q k]
    by (simp add: i merge_state_def last_value_def first_non_null_def no_update_def)
qed

section \<open>The reducer of is_information_found\<close>

text \<open>
  C8. The reducer of \<^verbatim>\<open>is_information_found\<close> is \<^verbatim>\<open>or_\<close>, and \<^verbatim>\<open>True | x\<close> is
  \<^verbatim>\<open>True\<close> for every boolean \<open>x\<close>. So once the flag is true, every merged state has the
  flag true, whatever the update writes; the merge yields a state for every update that
  leaves the flag alone or writes a boolean to it (writing \<^verbatim>\<open>None\<close> makes \<^verbatim>\<open>or_\<close> raise,
  and no node does so).
\<close>

theorem found_flag_is_monotone:
  assumes "is_information_found s = Some True"
  shows "(upd_is_information_found u \<noteq> Some None \<longrightarrow> (\<exists>s'. merge_state s u = Inr s'))
         \<and> (\<forall>s'. merge_state s u = Inr s' \<longrightarrow> is_information_found s' = Some True)
         \<and> py_or (Some True) (Some x) = Inr (Some True)"
  using assms
  by (cases "upd_is_information_found u"; cases "the (upd_is_information_found u)")
     (auto simp add: merge_state_def)

theorem found_flag_is_monotone_witness:
  "is_information_found found_state = Some True
   \<and> upd_is_information_found (evaluate (initialize_state one_url :: unit OverallState))
       = Some (Some False)
   \<and> merge_state found_state (evaluate (initialize_state one_url)) = Inr found_state"
  using found_flag_is_monotone
          [of found_state "evaluate (initialize_state one_url :: unit OverallState)" False]
  by (simp add: found_state_def evaluate_def no_update_def initialize_state_def one_url_def
        merge_state_def last_value_def Let_def)

end
